theory Spec2Isabelle
  imports Main "HOL-Library.AList"
begin

section \<open>Python strings and integers\<close>

text \<open>
  Python \<^verbatim>\<open>str\<close> values are modelled as \<^typ>\<open>string\<close>, Python \<^verbatim>\<open>int\<close> as \<^typ>\<open>int\<close>.
  \<open>endswith\<close>, \<open>startswith\<close>, \<open>str\<close> (on integers) and \<open>zfill\<close> follow the built-ins
  of the same name.
\<close>

definition endswith :: "string \<Rightarrow> string \<Rightarrow> bool" where
  "endswith s suffix =
     (length suffix \<le> length s \<and> drop (length s - length suffix) s = suffix)"

definition startswith :: "string \<Rightarrow> string \<Rightarrow> bool" where
  "startswith s prefix = (take (length prefix) s = prefix)"

fun digits :: "nat \<Rightarrow> string" where
  "digits n =
     (if n < 10 then [''0123456789'' ! n]
      else digits (n div 10) @ [''0123456789'' ! (n mod 10)])"

declare digits.simps [simp del]

definition str :: "int \<Rightarrow> string" where
  "str i = (if i < 0 then CHR ''-'' # digits (nat (- i)) else digits (nat i))"

definition zfill :: "string \<Rightarrow> nat \<Rightarrow> string" where
  "zfill s width =
     (if width \<le> length s then s
      else (case s of
              [] \<Rightarrow> replicate width CHR ''0''
            | c # cs \<Rightarrow>
                if c = CHR ''+'' \<or> c = CHR ''-''
                then c # replicate (width - length s) CHR ''0'' @ cs
                else replicate (width - length s) CHR ''0'' @ s))"

definition unlines :: "string list \<Rightarrow> string" where
  "unlines ls = concat (map (\<lambda>l. l @ [CHR 0x0A]) ls)"

section \<open>Paths (\<^verbatim>\<open>pathlib.Path\<close> on POSIX)\<close>

text \<open>
  A path is its anchor (\<open>''''\<close> for a relative path, \<open>''/''\<close> or \<open>''//''\<close> for an absolute one)
  and the list of its names. Parsing drops empty and \<open>.\<close> components and keeps \<open>..\<close>;
  two paths are equal when anchor and names are, which is how \<^verbatim>\<open>Path.__eq__\<close> compares.
  \<open>joinpath p s\<close> is \<^verbatim>\<open>p / s\<close>: an absolute right operand replaces the left one.
\<close>

datatype path = PurePath (anchor: string) (names: "string list")

fun split_sep :: "string \<Rightarrow> string list" where
  "split_sep [] = [[]]"
| "split_sep (c # cs) =
     (if c = CHR ''/'' then [] # split_sep cs
      else (case split_sep cs of
              [] \<Rightarrow> [[c]]
            | x # xs \<Rightarrow> (c # x) # xs))"

definition path_anchor :: "string \<Rightarrow> string" where
  "path_anchor s =
     (if startswith s ''//'' \<and> \<not> startswith s ''///'' then ''//''
      else if startswith s ''/'' then ''/''
      else '''')"

definition path_names :: "string \<Rightarrow> string list" where
  "path_names s = filter (\<lambda>c. c \<noteq> [] \<and> c \<noteq> ''.'') (split_sep s)"

definition Path :: "string \<Rightarrow> path" where
  "Path s = PurePath (path_anchor s) (path_names s)"

definition joinpath :: "path \<Rightarrow> string \<Rightarrow> path" where
  "joinpath p s =
     (if path_anchor s \<noteq> [] then Path s
      else PurePath (anchor p) (names p @ path_names s))"

definition parent :: "path \<Rightarrow> path" where
  "parent p = PurePath (anchor p) (butlast (names p))"

section \<open>The filesystem\<close>

text \<open>
  The disk is a table from paths to nodes. A path without names (the current directory
  or a root) is a directory that always exists and cannot be removed. The table is keyed
  by the paths as written: no symbolic links, and a \<open>..\<close> component is a name like any
  other. The operations fail with \<open>OSError\<close> where the POSIX calls do; \<open>faults\<close> says for
  which paths the system refuses an operation that would otherwise succeed
  (permissions, a full disk).
\<close>

datatype node = File string | Dir

type_synonym filesystem = "(path \<times> node) list"

datatype error = ValueError string | OSError

type_synonym 'a outcome = "error + 'a"

record faults =
  mkdir_denied :: "path \<Rightarrow> bool"
  open_denied :: "path \<Rightarrow> bool"
  write_fails :: "path \<Rightarrow> bool"
  unlink_denied :: "path \<Rightarrow> bool"
  rmdir_denied :: "path \<Rightarrow> bool"

definition is_file :: "filesystem \<Rightarrow> path \<Rightarrow> bool" where
  "is_file fs p = (case map_of fs p of Some (File _) \<Rightarrow> names p \<noteq> [] | _ \<Rightarrow> False)"

definition is_dir :: "filesystem \<Rightarrow> path \<Rightarrow> bool" where
  "is_dir fs p = (names p = [] \<or> map_of fs p = Some Dir)"

definition path_exists :: "filesystem \<Rightarrow> path \<Rightarrow> bool" where
  "path_exists fs p = (is_file fs p \<or> is_dir fs p)"

definition read_text :: "filesystem \<Rightarrow> path \<Rightarrow> string option" where
  "read_text fs p = (case map_of fs p of Some (File c) \<Rightarrow> if names p = [] then None else Some c | _ \<Rightarrow> None)"

definition has_entries :: "filesystem \<Rightarrow> path \<Rightarrow> bool" where
  "has_entries fs d = list_ex (\<lambda>p. names p \<noteq> [] \<and> parent p = d) (map fst fs)"

function mkdir :: "faults \<Rightarrow> filesystem \<Rightarrow> path \<Rightarrow> unit outcome \<times> filesystem" where
  "mkdir env fs p =
     (if is_dir fs p then (Inr (), fs)
      else if is_file fs p then (Inl OSError, fs)
      else (case mkdir env fs (parent p) of
              (Inl e, fs') \<Rightarrow> (Inl e, fs')
            | (Inr _, fs') \<Rightarrow>
                if mkdir_denied env p then (Inl OSError, fs')
                else (Inr (), AList.update p Dir fs')))"
  by pat_completeness auto
termination
  by (relation "measure (\<lambda>(env, fs, p). length (names p))")
     (auto simp: is_dir_def parent_def)

declare mkdir.simps [simp del]

definition write_text :: "faults \<Rightarrow> filesystem \<Rightarrow> path \<Rightarrow> string \<Rightarrow> unit outcome \<times> filesystem" where
  "write_text env fs p content =
     (if is_dir fs p \<or> \<not> is_dir fs (parent p) \<or> open_denied env p then (Inl OSError, fs)
      else if write_fails env p then (Inl OSError, AList.update p (File []) fs)
      else (Inr (), AList.update p (File content) fs))"

definition unlink :: "faults \<Rightarrow> filesystem \<Rightarrow> path \<Rightarrow> unit outcome \<times> filesystem" where
  "unlink env fs p =
     (if \<not> is_file fs p \<or> unlink_denied env p then (Inl OSError, fs)
      else (Inr (), AList.delete p fs))"

definition iterdir_any :: "filesystem \<Rightarrow> path \<Rightarrow> bool outcome" where
  "iterdir_any fs d = (if is_dir fs d then Inr (has_entries fs d) else Inl OSError)"

definition rmdir :: "faults \<Rightarrow> filesystem \<Rightarrow> path \<Rightarrow> unit outcome \<times> filesystem" where
  "rmdir env fs d =
     (if names d = [] \<or> \<not> is_dir fs d \<or> has_entries fs d \<or> rmdir_denied env d
      then (Inl OSError, fs)
      else (Inr (), AList.delete d fs))"

section \<open>The generator\<close>

text \<open>The template text and the text put before it in the package-init file.\<close>

definition LANGTRACE_SAMPLER_TEMPLATE :: string where
  \<open>LANGTRACE_SAMPLER_TEMPLATE = unlines
   [''from typing import Optional, Sequence'',
     ''from opentelemetry.sdk.trace.sampling import ('',
     ''    Sampler,'',
     ''    Decision,'',
     ''    SamplingResult,'',
     '')'',
     ''from opentelemetry.trace import SpanKind, Link, TraceState, TraceFlags'',
     ''from opentelemetry.util.types import Attributes'',
     ''from opentelemetry.context import Context'',
     ''from opentelemetry import trace'',
     '''',
     '''',
     ''class LangtraceSampler(Sampler):'',
     ''    """Custom sampler for Langtrace that filters spans based on disabled methods."""'',
     ''    '',
     ''    _disabled_methods_names: set'',
     ''    '',
     ''    def __init__('',
     ''        self,'',
     ''        disabled_methods: dict,'',
     ''    ):'',
     ''        """Initialize the sampler with disabled methods configuration.'',
     ''        '',
     ''        Args:'',
     ''            disabled_methods: Dictionary mapping components to their disabled methods'',
     ''        """'',
     ''        self._disabled_methods_names = set()'',
     ''        if disabled_methods:'',
     ''            for _, methods in disabled_methods.items():'',
     ''                for method in methods:'',
     ''                    self._disabled_methods_names.add(method)'',
     ''    '',
     ''    def should_sample('',
     ''        self,'',
     ''        parent_context: Optional[Context],'',
     ''        trace_id: int,'',
     ''        name: str,'',
     ''        kind: Optional[SpanKind] = None,'',
     ''        attributes: Attributes = None,'',
     ''        links: Optional[Sequence[Link]] = None,'',
     ''        trace_state: Optional["TraceState"] = None,'',
     ''    ) -> SamplingResult:'',
     ''        """Determine whether a span should be sampled.'',
     ''        '',
     ''        Args:'',
     ''            parent_context: The parent context'',
     ''            trace_id: The trace ID'',
     ''            name: The span name'',
     ''            kind: The span kind'',
     ''            attributes: The span attributes'',
     ''            links: The span links'',
     ''            trace_state: The trace state'',
     ''            '',
     ''        Returns:'',
     ''            SamplingResult indicating whether to sample the span'',
     ''        """'',
     ''        parent_span = trace.get_current_span(parent_context)'',
     ''        parent_span_context = parent_span.get_span_context()'',
     ''        '',
     ''        if not self._disabled_methods_names:'',
     ''            return SamplingResult(decision=Decision.RECORD_AND_SAMPLE)'',
     ''        '',
     ''        if parent_context:'',
     ''            if ('',
     ''                parent_span_context.span_id != 0'',
     ''                and parent_span_context.trace_flags != TraceFlags.SAMPLED'',
     ''            ):'',
     ''                return SamplingResult(decision=Decision.DROP)'',
     ''        '',
     ''        if name in self._disabled_methods_names:'',
     ''            return SamplingResult(decision=Decision.DROP)'',
     ''        '',
     ''        return SamplingResult(decision=Decision.RECORD_AND_SAMPLE)'',
     ''    '',
     ''    def get_description(self) -> str:'',
     ''        """Get a description of this sampler.'',
     ''        '',
     ''        Returns:'',
     ''            A string description of the sampler'',
     ''        """'',
     ''        return "Langtrace Sampler"'']\<close>

definition init_content :: string where
  \<open>init_content = unlines
   [''"""'',
     ''Langtrace Sampler Module'',
     '''',
     ''This module provides the LangtraceSampler class for OpenTelemetry tracing.'',
     ''"""'',
     '''',
     ''from .langtrace_sampler import LangtraceSampler'',
     '''',
     ''__all__ = ['' @ [CHR 0x27] @ ''LangtraceSampler'' @ [CHR 0x27] @ '']'',
     ''__version__ = '' @ [CHR 0x27] @ ''1.0.0'' @ [CHR 0x27]]\<close>

text \<open>
  The attributes of a \<^verbatim>\<open>LangtraceFileGenerator\<close>; a \<open>world\<close> is the generator together
  with the disk and the records the module's logger has received. A log record keeps
  the level and which message it is, with the values formatted into it.
\<close>

record generator =
  base_output_dir :: path
  use_timestamp :: bool
  created_files :: "path list"
  output_dir :: path

datatype level = INFO | ERROR

datatype message =
    CreatedTimestampedDirectory path
  | OutputDirectoryVerified path
  | FailedCreateOutputDirectory
  | GeneratedFile path
  | FailedCreateFile path
  | GeneratingCount int string
  | GeneratingCustom nat
  | RemovedFile path
  | FailedRemoveFile path
  | RemovedEmptyDirectory path
  | RemovedEmptyBaseDirectory path
  | FailedRemoveDirectory

record world =
  self :: generator
  disk :: filesystem
  logged :: "(level \<times> message) list"

definition logger_info :: "message \<Rightarrow> world \<Rightarrow> world" where
  "logger_info m w = w\<lparr>logged := logged w @ [(INFO, m)]\<rparr>"

definition logger_error :: "message \<Rightarrow> world \<Rightarrow> world" where
  "logger_error m w = w\<lparr>logged := logged w @ [(ERROR, m)]\<rparr>"

text \<open>
  \<^verbatim>\<open>__init__\<close>; \<open>timestamp\<close> is what \<^verbatim>\<open>datetime.now().strftime("%Y%m%d_%H%M%S")\<close> returns.
\<close>

definition LangtraceFileGenerator :: "string \<Rightarrow> bool \<Rightarrow> string \<Rightarrow> generator" where
  "LangtraceFileGenerator base use_ts timestamp =
     \<lparr>base_output_dir = Path base,
      use_timestamp = use_ts,
      created_files = [],
      output_dir = (if use_ts then joinpath (Path base) (''langtrace_'' @ timestamp)
                    else Path base)\<rparr>"

definition create_output_directory :: "faults \<Rightarrow> world \<Rightarrow> unit outcome \<times> world" where
  "create_output_directory env w =
     (case mkdir env (disk w) (output_dir (self w)) of
        (Inr _, fs') \<Rightarrow>
          (Inr (),
           logger_info
             (if use_timestamp (self w) then CreatedTimestampedDirectory (output_dir (self w))
              else OutputDirectoryVerified (output_dir (self w)))
             (w\<lparr>disk := fs'\<rparr>))
      | (Inl e, fs') \<Rightarrow> (Inl e, logger_error FailedCreateOutputDirectory (w\<lparr>disk := fs'\<rparr>)))"

text \<open>
  The method \<^verbatim>\<open>generate_file\<close> (the identifier is a keyword of Isabelle, hence the suffix).
\<close>

definition generate_file_py :: "faults \<Rightarrow> world \<Rightarrow> string \<Rightarrow> bool \<Rightarrow> path outcome \<times> world" where
  "generate_file_py env w filename0 add_init =
     (let filename = (if \<not> endswith filename0 ''.py'' then filename0 @ ''.py'' else filename0);
          file_path = joinpath (output_dir (self w)) filename;
          content = (if add_init \<and> filename = ''__init__.py''
                     then init_content @ LANGTRACE_SAMPLER_TEMPLATE
                     else LANGTRACE_SAMPLER_TEMPLATE)
      in case write_text env (disk w) file_path content of
           (Inr _, fs') \<Rightarrow>
             (Inr file_path,
              logger_info (GeneratedFile file_path)
                (w\<lparr>disk := fs',
                   self := (self w)\<lparr>created_files := created_files (self w) @ [file_path]\<rparr>\<rparr>))
         | (Inl e, fs') \<Rightarrow>
             (Inl e, logger_error (FailedCreateFile file_path) (w\<lparr>disk := fs'\<rparr>)))"

text \<open>The loop of \<^verbatim>\<open>_generate_files_by_count\<close>, over \<^verbatim>\<open>range(1, count + 1)\<close>.\<close>

fun count_loop :: "faults \<Rightarrow> int \<Rightarrow> string \<Rightarrow> world \<Rightarrow> int list \<Rightarrow> unit outcome \<times> world" where
  "count_loop env count base_filename w [] = (Inr (), w)"
| "count_loop env count base_filename w (i # rest) =
     (let filename =
            (if count = 1 then base_filename
             else let padding = length (str count)
                  in base_filename @ ''_'' @ zfill (str i) padding)
      in case generate_file_py env w filename False of
           (Inl e, w') \<Rightarrow> (Inl e, w')
         | (Inr _, w') \<Rightarrow> count_loop env count base_filename w' rest)"

definition generate_files_by_count :: "faults \<Rightarrow> world \<Rightarrow> int \<Rightarrow> string \<Rightarrow> unit outcome \<times> world" where
  "generate_files_by_count env w count base_filename =
     (if count \<le> 0 then (Inl (ValueError ''Count must be a positive integer''), w)
      else count_loop env count base_filename
             (logger_info (GeneratingCount count base_filename) w) [1..count])"

text \<open>The loop of \<^verbatim>\<open>_generate_files_by_names\<close>.\<close>

fun names_loop :: "faults \<Rightarrow> world \<Rightarrow> string list \<Rightarrow> unit outcome \<times> world" where
  "names_loop env w [] = (Inr (), w)"
| "names_loop env w (filename # rest) =
     (case generate_file_py env w filename False of
        (Inl e, w') \<Rightarrow> (Inl e, w')
      | (Inr _, w') \<Rightarrow> names_loop env w' rest)"

definition generate_files_by_names :: "faults \<Rightarrow> world \<Rightarrow> string list \<Rightarrow> unit outcome \<times> world" where
  "generate_files_by_names env w filenames =
     names_loop env (logger_info (GeneratingCustom (length filenames)) w) filenames"

definition generate_multiple_files ::
  "faults \<Rightarrow> world \<Rightarrow> string list option \<Rightarrow> int option \<Rightarrow> bool \<Rightarrow> string \<Rightarrow> path list outcome \<times> world" where
  "generate_multiple_files env w filenames count create_init base_filename =
     (if filenames = None \<and> count = None
      then (Inl (ValueError (''Either '' @ [CHR 0x27] @ ''filenames'' @ [CHR 0x27] @ '' or ''
                   @ [CHR 0x27] @ ''count'' @ [CHR 0x27] @ '' must be provided'')), w)
      else if filenames \<noteq> None \<and> count \<noteq> None
      then (Inl (ValueError (''Cannot specify both '' @ [CHR 0x27] @ ''filenames'' @ [CHR 0x27]
                   @ '' and '' @ [CHR 0x27] @ ''count'' @ [CHR 0x27] @ ''. Choose one.'')), w)
      else case create_output_directory env w of
             (Inl e, w1) \<Rightarrow> (Inl e, w1)
           | (Inr _, w1) \<Rightarrow>
               (case (if create_init
                      then (case generate_file_py env w1 ''__init__.py'' True of
                              (Inl e, w2) \<Rightarrow> (Inl e, w2)
                            | (Inr _, w2) \<Rightarrow> (Inr (), w2))
                      else (Inr (), w1)) of
                  (Inl e, w2) \<Rightarrow> (Inl e, w2)
                | (Inr _, w2) \<Rightarrow>
                    (case (case count of
                             Some c \<Rightarrow> generate_files_by_count env w2 c base_filename
                           | None \<Rightarrow> generate_files_by_names env w2 (the filenames)) of
                       (Inl e, w3) \<Rightarrow> (Inl e, w3)
                     | (Inr _, w3) \<Rightarrow> (Inr (created_files (self w3)), w3))))"

text \<open>
  \<^verbatim>\<open>cleanup\<close>: the loop over the recorded paths, each iteration inside its own
  \<^verbatim>\<open>try\<close>; then the removal of the directories inside one \<^verbatim>\<open>try\<close>; then the clear.
\<close>

fun remove_files :: "faults \<Rightarrow> world \<Rightarrow> path list \<Rightarrow> world" where
  "remove_files env w [] = w"
| "remove_files env w (file_path # rest) =
     remove_files env
       (if path_exists (disk w) file_path
        then (case unlink env (disk w) file_path of
                (Inr _, fs') \<Rightarrow> logger_info (RemovedFile file_path) (w\<lparr>disk := fs'\<rparr>)
              | (Inl e, fs') \<Rightarrow> logger_error (FailedRemoveFile file_path) (w\<lparr>disk := fs'\<rparr>))
        else w)
       rest"

definition remove_base_directory :: "faults \<Rightarrow> world \<Rightarrow> world" where
  "remove_base_directory env w =
     (let base = base_output_dir (self w)
      in if use_timestamp (self w) \<and> path_exists (disk w) base
         then (case iterdir_any (disk w) base of
                 Inl e \<Rightarrow> logger_error FailedRemoveDirectory w
               | Inr nonempty \<Rightarrow>
                   if \<not> nonempty
                   then (case rmdir env (disk w) base of
                           (Inl e, fs') \<Rightarrow> logger_error FailedRemoveDirectory (w\<lparr>disk := fs'\<rparr>)
                         | (Inr _, fs') \<Rightarrow>
                             logger_info (RemovedEmptyBaseDirectory base) (w\<lparr>disk := fs'\<rparr>))
                   else w)
         else w)"

definition remove_directories :: "faults \<Rightarrow> world \<Rightarrow> world" where
  "remove_directories env w =
     (let out = output_dir (self w)
      in if path_exists (disk w) out
         then (case iterdir_any (disk w) out of
                 Inl e \<Rightarrow> logger_error FailedRemoveDirectory w
               | Inr nonempty \<Rightarrow>
                   if \<not> nonempty
                   then (case rmdir env (disk w) out of
                           (Inl e, fs') \<Rightarrow> logger_error FailedRemoveDirectory (w\<lparr>disk := fs'\<rparr>)
                         | (Inr _, fs') \<Rightarrow>
                             remove_base_directory env
                               (logger_info (RemovedEmptyDirectory out) (w\<lparr>disk := fs'\<rparr>)))
                   else w)
         else w)"

definition cleanup :: "faults \<Rightarrow> world \<Rightarrow> world" where
  "cleanup env w =
     (let w1 = remove_files env w (created_files (self w));
          w2 = remove_directories env w1
      in w2\<lparr>self := (self w2)\<lparr>created_files := []\<rparr>\<rparr>)"

definition get_output_dir :: "world \<Rightarrow> path" where
  "get_output_dir w = output_dir (self w)"

section \<open>Notions used to state the properties\<close>

text \<open>
  The number a string of decimal digits denotes (what \<^verbatim>\<open>int(s)\<close> returns on such a
  string); a system without faults; a world with a new generator, nothing on the disk
  and nothing logged.
\<close>

definition decimal_value :: "string \<Rightarrow> nat" where
  "decimal_value s = foldl (\<lambda>a c. 10 * a + (of_char c - 48)) 0 s"

definition is_digit :: "char \<Rightarrow> bool" where
  "is_digit c = (c \<in> set ''0123456789'')"

definition no_faults :: faults where
  "no_faults =
     \<lparr>mkdir_denied = (\<lambda>_. False), open_denied = (\<lambda>_. False), write_fails = (\<lambda>_. False),
      unlink_denied = (\<lambda>_. False), rmdir_denied = (\<lambda>_. False)\<rparr>"

definition fresh :: "string \<Rightarrow> bool \<Rightarrow> world" where
  "fresh base use_ts =
     \<lparr>self = LangtraceFileGenerator base use_ts ''20250703_115949'', disk = [], logged = []\<rparr>"

section \<open>Evaluation on concrete inputs\<close>

lemmas path_eval =
  Path_def path_names_def path_anchor_def startswith_def endswith_def joinpath_def parent_def

lemmas fs_eval =
  is_dir_def is_file_def path_exists_def read_text_def has_entries_def mkdir.simps
  write_text_def unlink_def rmdir_def iterdir_any_def

lemmas gen_eval =
  generate_multiple_files_def create_output_directory_def generate_file_py_def
  generate_files_by_count_def generate_files_by_names_def logger_info_def logger_error_def
  LangtraceFileGenerator_def no_faults_def fresh_def Let_def

section \<open>Validation of the naming policy\<close>

text \<open>
  C4. \<^verbatim>\<open>generate_multiple_files\<close> raises \<^verbatim>\<open>ValueError\<close> when both \<open>filenames\<close> and \<open>count\<close>
  are given and when neither is, whatever the other arguments, the faults of the system
  and the world; the world after the call is the world before it: no directory was made,
  no file written, nothing recorded or logged.
\<close>

theorem naming_policy_both_or_neither:
  "generate_multiple_files env w (Some filenames) (Some count) create_init base_filename =
     (Inl (ValueError (''Cannot specify both '' @ [CHR 0x27] @ ''filenames'' @ [CHR 0x27]
             @ '' and '' @ [CHR 0x27] @ ''count'' @ [CHR 0x27] @ ''. Choose one.'')), w)
   \<and> generate_multiple_files env w None None create_init base_filename =
     (Inl (ValueError (''Either '' @ [CHR 0x27] @ ''filenames'' @ [CHR 0x27] @ '' or ''
             @ [CHR 0x27] @ ''count'' @ [CHR 0x27] @ '' must be provided'')), w)"
  by (simp add: generate_multiple_files_def)

text \<open>
  C3. With \<open>count = -1\<close> and \<open>create_init\<close> set, on a new generator for the directory
  \<open>out\<close> (no timestamp), an empty disk and no faults, \<^verbatim>\<open>generate_multiple_files\<close> raises the
  \<^verbatim>\<open>ValueError\<close> of \<^verbatim>\<open>_generate_files_by_count\<close> only after the directory \<open>out\<close> has been
  made and \<open>out/__init__.py\<close> written and recorded.
\<close>

theorem nonpositive_count_raises_after_writing:
  "generate_multiple_files no_faults (fresh ''out'' False) None (Some (- 1)) True
     ''langtrace_sampler'' =
     (Inl (ValueError ''Count must be a positive integer''),
      \<lparr>self = (LangtraceFileGenerator ''out'' False ''20250703_115949'')
                \<lparr>created_files := [PurePath [] [''out'', ''__init__.py'']]\<rparr>,
       disk = [(PurePath [] [''out''], Dir),
               (PurePath [] [''out'', ''__init__.py''],
                File (init_content @ LANGTRACE_SAMPLER_TEMPLATE))],
       logged = [(INFO, OutputDirectoryVerified (PurePath [] [''out''])),
                 (INFO, GeneratedFile (PurePath [] [''out'', ''__init__.py'']))]\<rparr>)"
  by (simp add: path_eval fs_eval gen_eval)

end
